theory Spec2Isabelle
  imports Main
begin

section \<open>The toolbar plugin of the editor (plugin-toolbar, \<open>src/unnamed/part_000\<close>)\<close>

text \<open>
  The source is a React component \<open>Toolbar\<close> over an externally owned editor object, the
  item components \<open>ToolbarButton\<close> and \<open>ToolbarDropdown\<close>, and the plugin function
  \<open>withToolbar\<close>. Function objects are values with an identity; mutation of the editor,
  of the listener array and of the components' state is explicit state passing.
\<close>

subsection \<open>JavaScript arrays: \<open>indexOf\<close>, \<open>splice\<close>, \<open>push\<close>\<close>

text \<open>
  \<open>Array.prototype.indexOf\<close>: the index of the first element identical to the one
  looked for, and \<open>-1\<close> when there is none.
\<close>

primrec indexOf :: "'a list \<Rightarrow> 'a \<Rightarrow> int" where
  "indexOf [] x = - 1"
| "indexOf (y # ys) x =
     (if y = x then 0 else (let i = indexOf ys x in if i < 0 then - 1 else i + 1))"

text \<open>
  \<open>Array.prototype.splice(start, deleteCount)\<close> with no inserted elements, as ECMAScript
  defines it: a negative \<open>start\<close> counts from the end of the array (and is clamped at
  \<open>0\<close>), a \<open>start\<close> beyond the end is the length, and the number of removed elements is
  clamped to what is left. The result is the array after the call. (The name carries a
  suffix: \<open>splice\<close> is a list function of HOL already.)
\<close>

definition splice_js :: "'a list \<Rightarrow> int \<Rightarrow> int \<Rightarrow> 'a list" where
  "splice_js xs start deleteCount =
     (let len = int (length xs);
          actualStart = (if start < 0 then max (len + start) 0 else min start len);
          actualDeleteCount = min (max deleteCount 0) (len - actualStart)
      in take (nat actualStart) xs @ drop (nat (actualStart + actualDeleteCount)) xs)"

subsection \<open>\<open>ToolbarContext.addEventListener\<close> and the unsubscribe closure\<close>

text \<open>
  \<open>addEventListener\<close> pushes the callback on the listener array and returns a closure
  over the callback. The closure is the value \<open>Unsubscribe callback\<close>; calling it is
  \<open>unsubscribe\<close>, the body \<open>eventListeners.splice(eventListeners.indexOf(callback), 1)\<close>.
\<close>

datatype 'a Unsubscribe = Unsubscribe 'a

definition addEventListener :: "'a \<Rightarrow> 'a list \<Rightarrow> 'a list \<times> 'a Unsubscribe" where
  "addEventListener callback eventListeners = (eventListeners @ [callback], Unsubscribe callback)"

fun unsubscribe :: "'a Unsubscribe \<Rightarrow> 'a list \<Rightarrow> 'a list" where
  "unsubscribe (Unsubscribe callback) eventListeners =
     splice_js eventListeners (indexOf eventListeners callback) 1"

subsection \<open>Toolbar items\<close>

text \<open>
  The editor is an object of the external framework. Its data (document, selection, marks
  and every other field this package never assigns) has the type \<open>'d\<close>; the callbacks of
  an item read, and \<open>onToggle\<close> changes, the editor through that data. The properties
  that \<open>ToolbarButton\<close> and \<open>ToolbarDropdown\<close> inherit from the components of
  \<open>@editablejs/plugin-ui\<close> (title, children, the entries of a dropdown) are declared
  outside this package: they are the field \<open>rest\<close>, of a type \<open>'p\<close>.

  The two interfaces have the same optional callbacks, at different types: \<open>onActive\<close>
  returns a boolean for a button and a string for a dropdown, \<open>onToggle\<close> takes the
  editor for a button and the editor and the chosen value for a dropdown. An optional
  property that is absent is \<open>None\<close>.
\<close>

record ('d, 'a, 't, 'p) descriptor =
  onActive :: "('d \<Rightarrow> 'a) option"
  onDisabled :: "('d \<Rightarrow> bool) option"
  onToggle :: "'t option"
  rest :: 'p

type_synonym ('d, 'p) ToolbarButton = "('d, bool, 'd \<Rightarrow> 'd, 'p) descriptor"

type_synonym ('d, 'p) ToolbarDropdown = "('d, string, 'd \<Rightarrow> string \<Rightarrow> 'd, 'p) descriptor"

text \<open>
  \<open>type ToolbarItem = ToolbarButton | ToolbarDropdown | 'separator'\<close>: the field \<open>type\<close>
  of a descriptor (\<open>'button'\<close> or \<open>'dropdown'\<close>) is the constructor.
\<close>

datatype ('d, 'p) ToolbarItem =
    Separator
  | Button "('d, 'p) ToolbarButton"
  | Dropdown "('d, 'p) ToolbarDropdown"

text \<open>\<open>interface Toolbar { items?: ToolbarItem[] }\<close>, the options of the plugin.\<close>

record ('d, 'p) Toolbar =
  items :: "('d, 'p) ToolbarItem list option"

subsection \<open>The editor object\<close>

text \<open>
  The value of \<open>editor.onSelectionChange\<close> is a function object: one that the
  framework or another plugin installed (\<open>External n\<close>, whose behaviour is given from
  outside), or the closure that the effect of \<open>Toolbar\<close> creates, which captures the
  handler it found (\<open>onSelectionChange\<close>) and the \<open>items\<close> property of the component
  (\<open>itemsProp\<close>, absent or a list).
\<close>

datatype ('d, 'p) handler =
    External nat
  | Wrapper "('d, 'p) handler" "('d, 'p) ToolbarItem list option"

text \<open>
  \<open>onToolbar\<close> is the field that makes an \<open>Editable\<close> a \<open>ToolbarEditor\<close>; it is absent
  on an editor that \<open>withToolbar\<close> (or an extension of it) never touched.
\<close>

record ('d, 'p) Editable =
  data :: 'd
  onSelectionChange :: "('d, 'p) handler"
  onToolbar :: "(('d, 'p) ToolbarItem list \<Rightarrow> ('d, 'p) ToolbarItem list) option"

subsection \<open>The state of a mounted Toolbar\<close>

text \<open>
  \<open>type EditorChangeHandler = (editor: Editable) => void\<close>. The listeners that this
  package registers are the \<open>onChange\<close> closures of the two item components. Such a
  closure captures the \<open>onActive\<close> and \<open>onDisabled\<close> properties of its component and the
  state setters of the component instance; the first number is the identity of the
  function object (each run of the effect creates a new one), the second names the
  component instance. \<open>ToolbarContext\<close> is exported, so a listener can also come from
  outside the package: \<open>Foreign n\<close>.
\<close>

datatype 'd EditorChangeHandler =
    ButtonOnChange nat nat "('d \<Rightarrow> bool) option" "('d \<Rightarrow> bool) option"
  | DropdownOnChange nat nat "('d \<Rightarrow> string) option" "('d \<Rightarrow> bool) option"
  | Foreign nat

text \<open>
  What the component tree holds between two events: the static editor
  (\<open>useEditableStatic()\<close>), the array \<open>useRef([]).current\<close> of listeners, the state
  \<open>items\<close> of \<open>Toolbar\<close> (here \<open>itemsState\<close>: \<open>items\<close> is the field of the options already),
  and the state of each item component instance: \<open>active\<close> and \<open>disabled\<close> of a button,
  \<open>value\<close> and \<open>disabled\<close> of a dropdown (\<open>None\<close> is \<open>undefined\<close>).
\<close>

record ('d, 'p) world =
  editor :: "('d, 'p) Editable"
  eventListeners :: "'d EditorChangeHandler list"
  itemsState :: "('d, 'p) ToolbarItem list"
  active :: "nat \<Rightarrow> bool"
  disabled :: "nat \<Rightarrow> bool"
  value' :: "nat \<Rightarrow> string option"

text \<open>
  The initial values: \<open>useRef<EditorChangeHandler[]>([])\<close>, \<open>useState<ToolbarItem[]>([])\<close>,
  \<open>useState(false)\<close> twice and \<open>useState<string>()\<close>.
\<close>

definition initial_world :: "('d, 'p) Editable \<Rightarrow> ('d, 'p) world" where
  "initial_world e =
     \<lparr>editor = e, eventListeners = [], itemsState = [],
      active = (\<lambda>i. False), disabled = (\<lambda>i. False), value' = (\<lambda>i. None)\<rparr>"

definition setItems :: "('d, 'p) ToolbarItem list \<Rightarrow> ('d, 'p) world \<Rightarrow> ('d, 'p) world" where
  "setItems xs w = w\<lparr>itemsState := xs\<rparr>"

definition setActive :: "nat \<Rightarrow> bool \<Rightarrow> ('d, 'p) world \<Rightarrow> ('d, 'p) world" where
  "setActive i b w = w\<lparr>active := (active w)(i := b)\<rparr>"

definition setDisabled :: "nat \<Rightarrow> bool \<Rightarrow> ('d, 'p) world \<Rightarrow> ('d, 'p) world" where
  "setDisabled i b w = w\<lparr>disabled := (disabled w)(i := b)\<rparr>"

definition setValue :: "nat \<Rightarrow> string option \<Rightarrow> ('d, 'p) world \<Rightarrow> ('d, 'p) world" where
  "setValue i v w = w\<lparr>value' := (value' w)(i := v)\<rparr>"

text \<open>
  Code outside this package (the handler that the framework installed on the editor, a
  listener of another package) is a parameter: what function object number \<open>n\<close> does to
  what it can reach, the editor and, through the closures of \<open>addEventListener\<close>, the
  listener array. The state of this package's components is out of its reach. Outside
  code is taken to return: an exception that it throws is not part of this model.
\<close>

type_synonym ('d, 'p) outside =
  "nat \<Rightarrow> ('d, 'p) Editable \<times> 'd EditorChangeHandler list
       \<Rightarrow> ('d, 'p) Editable \<times> 'd EditorChangeHandler list"

definition call_outside :: "('d, 'p) outside \<Rightarrow> nat \<Rightarrow> ('d, 'p) world \<Rightarrow> ('d, 'p) world" where
  "call_outside ext n w =
     (case ext n (editor w, eventListeners w) of
        (e, ls) \<Rightarrow> w\<lparr>editor := e, eventListeners := ls\<rparr>)"

subsection \<open>The listeners of the items\<close>

text \<open>
  \<open>callback(editor)\<close>. For a button (lines 45 to 50):
  \<^verbatim>\<open>active = onActive ? onActive(editor) : false; disabled = onDisabled ? onDisabled(editor) : false;
  setActive(active); setDisabled(disabled)\<close>
  and for a dropdown (lines 97 to 102) the same with \<open>value\<close>, whose default is \<open>undefined\<close>.
\<close>

fun callback :: "('d, 'p) outside \<Rightarrow> 'd EditorChangeHandler \<Rightarrow> ('d, 'p) world \<Rightarrow> ('d, 'p) world" where
  "callback ext (ButtonOnChange r i onActive' onDisabled') w =
     (let active' = (case onActive' of Some f \<Rightarrow> f (data (editor w)) | None \<Rightarrow> False);
          disabled' = (case onDisabled' of Some g \<Rightarrow> g (data (editor w)) | None \<Rightarrow> False)
      in setDisabled i disabled' (setActive i active' w))"
| "callback ext (DropdownOnChange r i onActive' onDisabled') w =
     (let v = (case onActive' of Some f \<Rightarrow> Some (f (data (editor w))) | None \<Rightarrow> None);
          disabled' = (case onDisabled' of Some g \<Rightarrow> g (data (editor w)) | None \<Rightarrow> False)
      in setDisabled i disabled' (setValue i v w))"
| "callback ext (Foreign n) w = call_outside ext n w"

text \<open>
  \<open>handleToogle\<close> of a button, \<open>if (onToggle) onToggle(editor)\<close>, and of a dropdown,
  \<open>if (onToggle) onToggle(editor, value)\<close>: the editor after the call.
\<close>

definition handleToogle :: "('d, 'p) ToolbarButton \<Rightarrow> ('d, 'p) Editable \<Rightarrow> ('d, 'p) Editable" where
  "handleToogle props e =
     (case onToggle props of Some f \<Rightarrow> e\<lparr>data := f (data e)\<rparr> | None \<Rightarrow> e)"

definition handleToogle_dropdown ::
  "('d, 'p) ToolbarDropdown \<Rightarrow> string \<Rightarrow> ('d, 'p) Editable \<Rightarrow> ('d, 'p) Editable" where
  "handleToogle_dropdown props v e =
     (case onToggle props of Some f \<Rightarrow> e\<lparr>data := f (data e) v\<rparr> | None \<Rightarrow> e)"

text \<open>
  The effect of an item component (lines 44 to 55 and 96 to 107): it creates \<open>onChange\<close>,
  a function object of identity \<open>r\<close>, registers it and returns the cleanup, which calls
  the unsubscribe closure.
\<close>

definition ToolbarButtonDefault_effect ::
  "nat \<Rightarrow> nat \<Rightarrow> ('d, 'p) ToolbarButton \<Rightarrow> ('d, 'p) world
     \<Rightarrow> ('d, 'p) world \<times> 'd EditorChangeHandler Unsubscribe" where
  "ToolbarButtonDefault_effect r i props w =
     (let onChange = ButtonOnChange r i (onActive props) (onDisabled props)
      in case addEventListener onChange (eventListeners w) of
           (ls, u) \<Rightarrow> (w\<lparr>eventListeners := ls\<rparr>, u))"

definition ToolbarDropdownDefault_effect ::
  "nat \<Rightarrow> nat \<Rightarrow> ('d, 'p) ToolbarDropdown \<Rightarrow> ('d, 'p) world
     \<Rightarrow> ('d, 'p) world \<times> 'd EditorChangeHandler Unsubscribe" where
  "ToolbarDropdownDefault_effect r i props w =
     (let onChange = DropdownOnChange r i (onActive props) (onDisabled props)
      in case addEventListener onChange (eventListeners w) of
           (ls, u) \<Rightarrow> (w\<lparr>eventListeners := ls\<rparr>, u))"

definition item_cleanup ::
  "'d EditorChangeHandler Unsubscribe \<Rightarrow> ('d, 'p) world \<Rightarrow> ('d, 'p) world" where
  "item_cleanup u w = w\<lparr>eventListeners := unsubscribe u (eventListeners w)\<rparr>"

subsection \<open>\<open>dispatch\<close> and the wrapper of \<open>onSelectionChange\<close>\<close>

text \<open>
  \<open>eventListeners.forEach(callback => callback(editor))\<close> on the live array, as
  \<open>Array.prototype.forEach\<close> runs: the length is read once, before the first call, the
  indices \<open>0 .. len - 1\<close> are visited in order, and an index is skipped when the array,
  as it is at that moment, has no element there. \<open>forEach_from n k\<close> visits the \<open>n\<close>
  indices from \<open>k\<close> on.
\<close>

primrec forEach_from ::
  "('d, 'p) outside \<Rightarrow> nat \<Rightarrow> nat \<Rightarrow> ('d, 'p) world \<Rightarrow> ('d, 'p) world" where
  "forEach_from ext 0 k w = w"
| "forEach_from ext (Suc n) k w =
     forEach_from ext n (Suc k)
       (if k < length (eventListeners w) then callback ext (eventListeners w ! k) w else w)"

definition dispatch :: "('d, 'p) outside \<Rightarrow> ('d, 'p) world \<Rightarrow> ('d, 'p) world" where
  "dispatch ext w = forEach_from ext (length (eventListeners w)) 0 w"

text \<open>
  Calling \<open>editor.onToolbar\<close> on an editor that has no such field is a \<open>TypeError\<close>
  (the component casts the static editor to \<open>ToolbarEditor\<close> without a check).
\<close>

datatype error = TypeError

text \<open>
  Calling a value of \<open>editor.onSelectionChange\<close>. The wrapper (lines 150 to 154):
  \<^verbatim>\<open>onSelectionChange(); dispatch(); setItems(editor.onToolbar(itemsProp || []))\<close>
\<close>

primrec call_handler ::
  "('d, 'p) outside \<Rightarrow> ('d, 'p) handler \<Rightarrow> ('d, 'p) world \<Rightarrow> error + ('d, 'p) world" where
  "call_handler ext (External n) w = Inr (call_outside ext n w)"
| "call_handler ext (Wrapper onSelectionChange' itemsProp) w =
     (case call_handler ext onSelectionChange' w of
        Inl e \<Rightarrow> Inl e
      | Inr w1 \<Rightarrow>
          (let w2 = dispatch ext w1
           in case onToolbar (editor w2) of
                None \<Rightarrow> Inl TypeError
              | Some f \<Rightarrow> Inr (setItems (f (case itemsProp of Some xs \<Rightarrow> xs | None \<Rightarrow> [])) w2)))"

text \<open>A selection change: the framework calls \<open>editor.onSelectionChange()\<close>.\<close>

definition selectionChange :: "('d, 'p) outside \<Rightarrow> ('d, 'p) world \<Rightarrow> error + ('d, 'p) world" where
  "selectionChange ext w = call_handler ext (onSelectionChange (editor w)) w"

text \<open>
  The layout effect of \<open>Toolbar\<close> (lines 145 to 159): it reads the handler in place,
  installs the wrapper, calls \<open>dispatch()\<close> and returns the cleanup, a closure over the
  handler it read. The cleanup is the value \<open>Cleanup onSelectionChange\<close>; running it is
  \<open>Toolbar_cleanup\<close>, the assignment \<open>editor.onSelectionChange = onSelectionChange\<close>.
\<close>

datatype ('d, 'p) Cleanup = Cleanup "('d, 'p) handler"

definition Toolbar_effect ::
  "('d, 'p) outside \<Rightarrow> ('d, 'p) ToolbarItem list option \<Rightarrow> ('d, 'p) world
     \<Rightarrow> ('d, 'p) world \<times> ('d, 'p) Cleanup" where
  "Toolbar_effect ext itemsProp w =
     (let onSelectionChange' = onSelectionChange (editor w);
          w1 = w\<lparr>editor := (editor w)\<lparr>onSelectionChange := Wrapper onSelectionChange' itemsProp\<rparr>\<rparr>
      in (dispatch ext w1, Cleanup onSelectionChange'))"

fun Toolbar_cleanup :: "('d, 'p) Cleanup \<Rightarrow> ('d, 'p) world \<Rightarrow> ('d, 'p) world" where
  "Toolbar_cleanup (Cleanup onSelectionChange') w =
     w\<lparr>editor := (editor w)\<lparr>onSelectionChange := onSelectionChange'\<rparr>\<rparr>"

subsection \<open>Rendering the items\<close>

text \<open>
  The elements that \<open>renderItem\<close> creates, each with its \<open>key\<close> and, for a button or a
  dropdown, the properties spread from the descriptor (\<open>{...item}\<close>).
\<close>

datatype ('d, 'p) element =
    ToolbarSeparator_element nat
  | ToolbarButton_element nat "('d, 'p) ToolbarButton"
  | ToolbarDropdown_element nat "('d, 'p) ToolbarDropdown"

fun renderItem :: "('d, 'p) ToolbarItem \<Rightarrow> nat \<Rightarrow> ('d, 'p) element" where
  "renderItem Separator key = ToolbarSeparator_element key"
| "renderItem (Button item) key = ToolbarButton_element key item"
| "renderItem (Dropdown item) key = ToolbarDropdown_element key item"

text \<open>
  The children of \<open>UIToolbar\<close>, \<open>(items ?? []).map(renderItem)\<close>: \<open>map\<close> of JavaScript
  passes the index as the second argument, which is the key.
\<close>

definition Toolbar_children :: "('d, 'p) world \<Rightarrow> ('d, 'p) element list" where
  "Toolbar_children w = map (\<lambda>(key, item). renderItem item key) (enumerate 0 (itemsState w))"

subsection \<open>\<open>withToolbar\<close> and \<open>ToolbarEditor\<close>\<close>

text \<open>
  \<open>withToolbar\<close> mutates the editor it is given and the module's \<open>WeakMap\<close>
  \<open>TOOLBAR_OPTIONS\<close>, whose keys are editor objects. Editors are addresses of a heap
  of editor objects here, so that two editors with equal fields stay two keys.
\<close>

record ('d, 'p) store =
  heap :: "nat \<Rightarrow> ('d, 'p) Editable"
  TOOLBAR_OPTIONS :: "nat \<rightharpoonup> ('d, 'p) Toolbar"

text \<open>At module load: \<open>new WeakMap<Editable, Toolbar>()\<close>.\<close>

definition initial_store :: "(nat \<Rightarrow> ('d, 'p) Editable) \<Rightarrow> ('d, 'p) store" where
  "initial_store h = \<lparr>heap = h, TOOLBAR_OPTIONS = Map.empty\<rparr>"

text \<open>
  \<open>withToolbar(editor, options = {})\<close> (lines 203 to 211); an omitted \<open>options\<close> is
  \<open>None\<close>. The result is the returned editor and the store after the call.
\<close>

definition withToolbar ::
  "nat \<Rightarrow> ('d, 'p) Toolbar option \<Rightarrow> ('d, 'p) store \<Rightarrow> nat \<times> ('d, 'p) store" where
  "withToolbar e options s =
     (let options' = (case options of Some opts \<Rightarrow> opts | None \<Rightarrow> \<lparr>items = None\<rparr>);
          newEditor = e;
          s1 = s\<lparr>TOOLBAR_OPTIONS := (TOOLBAR_OPTIONS s)(e \<mapsto> options')\<rparr>;
          s2 = s1\<lparr>heap := (heap s1)(newEditor := (heap s1 newEditor)\<lparr>onToolbar := Some (\<lambda>items'. items')\<rparr>)\<rparr>
      in (newEditor, s2))"

text \<open>\<open>ToolbarEditor.isToolbarEditor\<close>: \<open>!!editor.onToolbar\<close>.\<close>

definition isToolbarEditor :: "('d, 'p) store \<Rightarrow> nat \<Rightarrow> bool" where
  "isToolbarEditor s e = (case onToolbar (heap s e) of Some f \<Rightarrow> True | None \<Rightarrow> False)"

text \<open>\<open>ToolbarEditor.getOptions\<close>: \<open>TOOLBAR_OPTIONS.get(editor) ?? {}\<close>.\<close>

definition getOptions :: "('d, 'p) store \<Rightarrow> nat \<Rightarrow> ('d, 'p) Toolbar" where
  "getOptions s e = (case TOOLBAR_OPTIONS s e of Some opts \<Rightarrow> opts | None \<Rightarrow> \<lparr>items = None\<rparr>)"

text \<open>A run of the program up to some point: the calls of \<open>withToolbar\<close> it made, in order.\<close>

primrec withToolbar_calls ::
  "(nat \<times> ('d, 'p) Toolbar option) list \<Rightarrow> ('d, 'p) store \<Rightarrow> ('d, 'p) store" where
  "withToolbar_calls [] s = s"
| "withToolbar_calls (c # cs) s = withToolbar_calls cs (snd (withToolbar (fst c) (snd c) s))"

subsection \<open>Notions of the specification\<close>

text \<open>
  In the words of the specification: a notification invokes every registered listener,
  each exactly once, in the order of registration. That is \<open>call_each\<close> on the array as
  it is when the notification starts.
\<close>

primrec call_each ::
  "('d, 'p) outside \<Rightarrow> 'd EditorChangeHandler list \<Rightarrow> ('d, 'p) world \<Rightarrow> ('d, 'p) world" where
  "call_each ext [] w = w"
| "call_each ext (cb # cbs) w = call_each ext cbs (callback ext cb w)"

text \<open>
  The component instance whose state a listener sets: the listener of an item has one,
  a listener from outside the package has none.
\<close>

fun component :: "'d EditorChangeHandler \<Rightarrow> nat option" where
  "component (ButtonOnChange r i onActive' onDisabled') = Some i"
| "component (DropdownOnChange r i onActive' onDisabled') = Some i"
| "component (Foreign n) = None"

text \<open>
  The listener of a mounted item. The effect of an item component registers one listener
  for its component instance, and its cleanup unsubscribes that listener before the
  effect registers another: the listener of an item is in the array, and no other
  listener of the array belongs to its component instance.
\<close>

definition registered_item :: "'d EditorChangeHandler list \<Rightarrow> 'd EditorChangeHandler \<Rightarrow> bool" where
  "registered_item ls cb =
     (cb \<in> set ls \<and> component cb \<noteq> None \<and> (\<forall>c\<in>set ls. component c = component cb \<longrightarrow> c = cb))"

subsection \<open>A concrete editor and toolbar\<close>

text \<open>
  An editor whose data is the position of the selection. Every function object from
  outside moves the selection one step and touches nothing else.
\<close>

definition moving :: "(nat, string) outside" where
  "moving n x = (case x of (e, ls) \<Rightarrow> (e\<lparr>data := Suc (data e)\<rparr>, ls))"

text \<open>
  A listener that unsubscribes itself when it is called, as a one-shot listener does:
  \<^verbatim>\<open>const off = addEventListener(() => off())\<close>
\<close>

definition once :: "(nat, string) outside" where
  "once n x = (case x of (e, ls) \<Rightarrow> (e, unsubscribe (Unsubscribe (Foreign n)) ls))"

text \<open>
  Function object \<open>0\<close> is the handler that the framework installed, which moves the
  selection one step. Every other one is a listener that registers one more listener
  each time it is called.
\<close>

definition adding :: "(nat, string) outside" where
  "adding n x =
     (case x of (e, ls) \<Rightarrow>
        if n = 0 then (e\<lparr>data := Suc (data e)\<rparr>, ls)
        else (e, fst (addEventListener (Foreign (Suc n)) ls)))"

text \<open>
  Function object \<open>0\<close> as before; every other one is a one-shot listener, which
  unsubscribes itself when it is called.
\<close>

definition one_shot :: "(nat, string) outside" where
  "one_shot n x =
     (case x of (e, ls) \<Rightarrow>
        if n = 0 then (e\<lparr>data := Suc (data e)\<rparr>, ls)
        else (e, unsubscribe (Unsubscribe (Foreign n)) ls))"


definition example_heap :: "nat \<Rightarrow> (nat, string) Editable" where
  "example_heap a = \<lparr>data = 0, onSelectionChange = External 0, onToolbar = None\<rparr>"

definition example_editor :: "(nat, string) Editable" where
  "example_editor = heap (snd (withToolbar 0 None (initial_store example_heap))) 0"

definition bold_button :: "(nat, string) ToolbarButton" where
  "bold_button =
     \<lparr>onActive = Some (\<lambda>d. d = 1), onDisabled = Some (\<lambda>d. 5 < d), onToggle = None, rest = ''bold''\<rparr>"

definition heading_dropdown :: "(nat, string) ToolbarDropdown" where
  "heading_dropdown =
     \<lparr>onActive = Some (\<lambda>d. if d = 1 then ''h1'' else ''p''), onDisabled = None,
      onToggle = None, rest = ''heading''\<rparr>"

definition plain_button :: "(nat, string) ToolbarButton" where
  "plain_button = \<lparr>onActive = None, onDisabled = None, onToggle = None, rest = ''plain''\<rparr>"

definition plain_dropdown :: "(nat, string) ToolbarDropdown" where
  "plain_dropdown = \<lparr>onActive = None, onDisabled = None, onToggle = None, rest = ''empty''\<rparr>"

definition example_items :: "(nat, string) ToolbarItem list" where
  "example_items = [Button bold_button, Separator, Dropdown heading_dropdown]"

text \<open>
  The component tree with four items mounted (instances \<open>0\<close> to \<open>3\<close>, their listeners
  the function objects \<open>1\<close> to \<open>4\<close>), every state left set by an earlier render.
\<close>

definition example_world :: "(nat, string) world" where
  "example_world =
     (let w0 = (initial_world example_editor)
                 \<lparr>active := (\<lambda>i. True), disabled := (\<lambda>i. True), value' := (\<lambda>i. Some ''old'')\<rparr>;
          w1 = fst (ToolbarButtonDefault_effect 1 0 bold_button w0);
          w2 = fst (ToolbarDropdownDefault_effect 2 1 heading_dropdown w1);
          w3 = fst (ToolbarButtonDefault_effect 3 2 plain_button w2)
      in fst (ToolbarDropdownDefault_effect 4 3 plain_dropdown w3))"

text \<open>The same tree after the layout effect of \<open>Toolbar\<close> has run.\<close>

definition mounted_world :: "(nat, string) world" where
  "mounted_world = fst (Toolbar_effect moving (Some example_items) example_world)"

text \<open>
  A toolbar with a one-shot listener from outside the package registered before the
  listener of a button.
\<close>

definition once_world :: "(nat, string) world" where
  "once_world =
     fst (ToolbarButtonDefault_effect 1 0 \<lparr>onActive = Some (\<lambda>d. True), onDisabled = None, onToggle = None, rest = ''bold''\<rparr>
            ((initial_world example_editor)\<lparr>eventListeners := fst (addEventListener (Foreign 0) [])\<rparr>))"

text \<open>
  The four items of \<open>example_world\<close>, mounted after a listener from outside the package
  was registered, every state left set by an earlier render; and the same tree after the
  layout effect of \<open>Toolbar\<close> has run (the listener from outside has added one).
\<close>

definition adding_listeners_world :: "(nat, string) world" where
  "adding_listeners_world =
     (let w0 = (initial_world example_editor)
                 \<lparr>eventListeners := fst (addEventListener (Foreign 1) []),
                  active := (\<lambda>i. True), disabled := (\<lambda>i. True), value' := (\<lambda>i. Some ''old'')\<rparr>;
          w1 = fst (ToolbarButtonDefault_effect 1 0 bold_button w0);
          w2 = fst (ToolbarDropdownDefault_effect 2 1 heading_dropdown w1);
          w3 = fst (ToolbarButtonDefault_effect 3 2 plain_button w2)
      in fst (ToolbarDropdownDefault_effect 4 3 plain_dropdown w3))"

definition adding_world :: "(nat, string) world" where
  "adding_world = fst (Toolbar_effect adding (Some example_items) adding_listeners_world)"

text \<open>
  A toolbar mounted with no item yet; then a one-shot listener is registered from
  outside, and then a button mounts.
\<close>

definition one_shot_world :: "(nat, string) world" where
  "one_shot_world =
     (let w0 = fst (Toolbar_effect one_shot (Some example_items) (initial_world example_editor));
          w1 = w0\<lparr>eventListeners := fst (addEventListener (Foreign 1) (eventListeners w0))\<rparr>
      in fst (ToolbarButtonDefault_effect 1 0 bold_button w1))"

text \<open>
  The same with a button that has no callbacks, whose state an earlier render with other
  properties left set.
\<close>

definition stale_one_shot_world :: "(nat, string) world" where
  "stale_one_shot_world =
     (let w0 = fst (Toolbar_effect one_shot (Some example_items)
                 ((initial_world example_editor)\<lparr>active := (\<lambda>i. True), disabled := (\<lambda>i. True)\<rparr>));
          w1 = w0\<lparr>eventListeners := fst (addEventListener (Foreign 1) (eventListeners w0))\<rparr>
      in fst (ToolbarButtonDefault_effect 3 2 plain_button w1))"

text \<open>
  A toolbar with a button, and a listener from outside registered after it that moves
  the selection.
\<close>

definition mover_world :: "(nat, string) world" where
  "mover_world =
     (let w0 = fst (Toolbar_effect moving (Some example_items) (initial_world example_editor));
          w1 = fst (ToolbarButtonDefault_effect 1 0 bold_button w0)
      in w1\<lparr>eventListeners := fst (addEventListener (Foreign 1) (eventListeners w1))\<rparr>)"

text \<open>The first selection change on a toolbar that was mounted with no item yet.\<close>

definition first_notification :: "error + (nat, string) world" where
  "first_notification =
     selectionChange moving (fst (Toolbar_effect moving (Some example_items) (initial_world example_editor)))"

section \<open>Properties\<close>

subsection \<open>Arrays\<close>

lemma indexOf_notin: "x \<notin> set xs \<Longrightarrow> indexOf xs x = - 1"
  by (induction xs) (auto simp: Let_def)

lemma indexOf_in: "x \<in> set xs \<Longrightarrow> 0 \<le> indexOf xs x \<and> indexOf xs x < int (length xs)"
  by (induction xs) (auto simp: Let_def)

text \<open>At the index of an element, \<open>splice\<close> removes the first occurrence of the element.\<close>

lemma splice_js_indexOf_in: "x \<in> set xs \<Longrightarrow> splice_js xs (indexOf xs x) 1 = remove1 x xs"
proof (induction xs)
  case Nil
  then show ?case by simp
next
  case (Cons y ys)
  show ?case
  proof (cases "y = x")
    case True
    then show ?thesis by (simp add: splice_js_def)
  next
    case False
    with Cons.prems have xin: "x \<in> set ys" by simp
    from indexOf_in[OF xin] have b: "0 \<le> indexOf ys x" "indexOf ys x < int (length ys)" by auto
    have "splice_js (y # ys) (indexOf ys x + 1) 1 = y # splice_js ys (indexOf ys x) 1"
      using b by (simp add: splice_js_def Let_def nat_add_distrib min_def max_def)
    with False Cons.IH[OF xin] b show ?thesis by (simp add: Let_def)
  qed
qed

text \<open>At \<open>-1\<close>, the index of an element that is not there, it removes the last element.\<close>

lemma splice_js_minus_one: "splice_js xs (- 1) 1 = butlast xs"
  by (cases xs rule: rev_cases) (auto simp: splice_js_def Let_def butlast_conv_take)

lemma unsubscribe_registered:
  "callback' \<in> set ls \<Longrightarrow> unsubscribe (Unsubscribe callback') ls = remove1 callback' ls"
  by (simp add: splice_js_indexOf_in)

lemma unsubscribe_not_registered:
  "callback' \<notin> set ls \<Longrightarrow> unsubscribe (Unsubscribe callback') ls = butlast ls"
  by (simp add: indexOf_notin splice_js_minus_one)

lemma example_editor_eq:
  "example_editor = \<lparr>data = 0, onSelectionChange = External 0, onToolbar = Some (\<lambda>items'. items')\<rparr>"
  by (simp add: example_editor_def withToolbar_def initial_store_def example_heap_def)

lemma example_world_eq:
  "example_world =
     \<lparr>editor = example_editor,
      eventListeners =
        [ButtonOnChange 1 0 (Some (\<lambda>d. d = 1)) (Some (\<lambda>d. 5 < d)),
         DropdownOnChange 2 1 (Some (\<lambda>d. if d = 1 then ''h1'' else ''p'')) None,
         ButtonOnChange 3 2 None None,
         DropdownOnChange 4 3 None None],
      itemsState = [],
      active = (\<lambda>i. True), disabled = (\<lambda>i. True), value' = (\<lambda>i. Some ''old'')\<rparr>"
  by (simp add: example_world_def initial_world_def ToolbarButtonDefault_effect_def
      ToolbarDropdownDefault_effect_def addEventListener_def Let_def
      bold_button_def heading_dropdown_def plain_button_def plain_dropdown_def)

lemma adding_listeners_world_eq:
  "adding_listeners_world =
     \<lparr>editor = example_editor,
      eventListeners =
        [Foreign 1,
         ButtonOnChange 1 0 (Some (\<lambda>d. d = 1)) (Some (\<lambda>d. 5 < d)),
         DropdownOnChange 2 1 (Some (\<lambda>d. if d = 1 then ''h1'' else ''p'')) None,
         ButtonOnChange 3 2 None None,
         DropdownOnChange 4 3 None None],
      itemsState = [],
      active = (\<lambda>i. True), disabled = (\<lambda>i. True), value' = (\<lambda>i. Some ''old'')\<rparr>"
  by (simp add: adding_listeners_world_def initial_world_def ToolbarButtonDefault_effect_def
      ToolbarDropdownDefault_effect_def addEventListener_def Let_def
      bold_button_def heading_dropdown_def plain_button_def plain_dropdown_def)

text \<open>The definitions that evaluate a concrete component tree.\<close>

lemmas eval_defs =
  initial_world_def ToolbarButtonDefault_effect_def ToolbarDropdownDefault_effect_def
  addEventListener_def Toolbar_effect_def dispatch_def selectionChange_def call_outside_def
  setActive_def setDisabled_def setValue_def setItems_def Let_def numeral_eq_Suc
  bold_button_def heading_dropdown_def plain_button_def plain_dropdown_def example_editor_eq


subsection \<open>Unsubscribing\<close>

text \<open>
  C8. The unsubscribe closure that \<open>addEventListener\<close> returns removes its callback from
  the listener array, and a second call should change nothing. The code has no guard for
  a callback that is no longer registered: \<open>indexOf\<close> is then \<open>-1\<close>, and
  \<open>splice(-1, 1)\<close> removes the last element of the array. With two listeners registered,
  the first call of the first listener's closure removes that listener, and the second
  call removes the other one.
\<close>

theorem unsubscribe_twice_removes_last_listener:
  "(case addEventListener (Foreign 1 :: nat EditorChangeHandler) [] of
      (ls1, off1) \<Rightarrow>
        (case addEventListener (Foreign 2) ls1 of
           (ls2, off2) \<Rightarrow>
             ls2 = [Foreign 1, Foreign 2] \<and>
             unsubscribe off1 ls2 = [Foreign 2] \<and>
             unsubscribe off1 (unsubscribe off1 ls2) = []))"
  by (simp add: addEventListener_def splice_js_def)

subsection \<open>Rendering\<close>

text \<open>
  C7. Every toolbar item is the separator, a button or a dropdown, and the children of
  the toolbar are the items of its state rendered by kind, each with its index as key:
  a separator element for the separator, a button element with the properties of the
  descriptor for a button, a dropdown element with the properties of the descriptor for
  a dropdown.
\<close>

theorem renderItem_by_kind:
  "(item = Separator \<or> (\<exists>props. item = Button props) \<or> (\<exists>props. item = Dropdown props)) \<and>
   length (Toolbar_children w) = length (itemsState w) \<and>
   (\<forall>key < length (itemsState w).
      Toolbar_children w ! key =
        (case itemsState w ! key of
           Separator \<Rightarrow> ToolbarSeparator_element key
         | Button props \<Rightarrow> ToolbarButton_element key props
         | Dropdown props \<Rightarrow> ToolbarDropdown_element key props))"
proof (intro conjI allI impI)
  show "item = Separator \<or> (\<exists>props. item = Button props) \<or> (\<exists>props. item = Dropdown props)"
    by (cases item) auto
  show "length (Toolbar_children w) = length (itemsState w)"
    by (simp add: Toolbar_children_def)
  fix key assume "key < length (itemsState w)"
  then show "Toolbar_children w ! key =
        (case itemsState w ! key of
           Separator \<Rightarrow> ToolbarSeparator_element key
         | Button props \<Rightarrow> ToolbarButton_element key props
         | Dropdown props \<Rightarrow> ToolbarDropdown_element key props)"
    by (cases "itemsState w ! key") (simp_all add: Toolbar_children_def nth_enumerate_eq)
qed

theorem renderItem_by_kind_witness:
  "length (Toolbar_children (setItems example_items mounted_world)) = 3 \<and>
   Toolbar_children (setItems example_items mounted_world) ! 0 = ToolbarButton_element 0 bold_button \<and>
   Toolbar_children (setItems example_items mounted_world) ! 1 = ToolbarSeparator_element 1 \<and>
   Toolbar_children (setItems example_items mounted_world) ! 2 = ToolbarDropdown_element 2 heading_dropdown"
proof -
  let ?w = "setItems example_items mounted_world"
  have items: "itemsState ?w = example_items" by (simp add: setItems_def)
  have items3: "length example_items = 3" by (simp add: example_items_def)
  from renderItem_by_kind[of Separator ?w]
  have len: "length (Toolbar_children ?w) = 3"
    and nth: "\<forall>key<3. Toolbar_children ?w ! key =
        (case example_items ! key of
           Separator \<Rightarrow> ToolbarSeparator_element key
         | Button props \<Rightarrow> ToolbarButton_element key props
         | Dropdown props \<Rightarrow> ToolbarDropdown_element key props)"
    unfolding items items3 by simp_all
  from nth have "Toolbar_children ?w ! 0 = ToolbarButton_element 0 bold_button"
    "Toolbar_children ?w ! 1 = ToolbarSeparator_element 1"
    "Toolbar_children ?w ! 2 = ToolbarDropdown_element 2 heading_dropdown"
    by (simp_all add: example_items_def)
  with len show ?thesis by simp
qed

subsection \<open>The layout effect of the Toolbar and its cleanup\<close>

text \<open>
  C6. The cleanup that the layout effect returns, run in any later state \<open>w'\<close> of the
  component tree (the state that the effect left among them), sets
  \<open>editor.onSelectionChange\<close> to the handler that was installed when the effect started,
  and changes nothing else.
\<close>

theorem Toolbar_cleanup_restores_onSelectionChange:
  "onSelectionChange (editor (Toolbar_cleanup (snd (Toolbar_effect ext itemsProp w)) w')) =
     onSelectionChange (editor w) \<and>
   Toolbar_cleanup (snd (Toolbar_effect ext itemsProp w)) w' =
     w'\<lparr>editor := (editor w')\<lparr>onSelectionChange := onSelectionChange (editor w)\<rparr>\<rparr>"
  by (simp add: Toolbar_effect_def Let_def)

theorem Toolbar_cleanup_restores_onSelectionChange_witness:
  "onSelectionChange (editor example_world) = External 0 \<and>
   onSelectionChange (editor mounted_world) = Wrapper (External 0) (Some example_items) \<and>
   onSelectionChange (editor (Toolbar_cleanup (snd (Toolbar_effect moving (Some example_items) example_world)) mounted_world)) = External 0"
proof -
  have a: "onSelectionChange (editor example_world) = External 0"
    by (simp add: example_world_eq example_editor_eq)
  have b: "onSelectionChange (editor mounted_world) = Wrapper (External 0) (Some example_items)"
    by (simp add: mounted_world_def Toolbar_effect_def dispatch_def example_world_eq
        example_editor_eq Let_def setActive_def setDisabled_def setValue_def numeral_eq_Suc)
  from Toolbar_cleanup_restores_onSelectionChange[of moving "Some example_items" example_world mounted_world] a b
  show ?thesis by simp
qed

subsection \<open>The plugin function and its options\<close>

lemma withToolbar_calls_other_editor:
  "e \<notin> fst ` set calls \<Longrightarrow>
     TOOLBAR_OPTIONS (withToolbar_calls calls s) e = TOOLBAR_OPTIONS s e"
  by (induction calls arbitrary: s) (auto simp: withToolbar_def Let_def)

text \<open>
  C9. After \<open>withToolbar(editor, options)\<close>, \<open>getOptions(editor)\<close> is the options that were
  passed (the empty options object when they were omitted), and stays so through later
  calls of \<open>withToolbar\<close> on other editors. For an editor that is not
  among the editors of the calls of \<open>withToolbar\<close> made since the module was loaded,
  \<open>getOptions\<close> is the empty options object.
\<close>

theorem getOptions_withToolbar:
  "getOptions (snd (withToolbar e (Some options) s)) e = options \<and>
   getOptions (snd (withToolbar e None s)) e = \<lparr>items = None\<rparr> \<and>
   (e \<notin> fst ` set later \<longrightarrow>
      getOptions (withToolbar_calls later (snd (withToolbar e (Some options) s))) e = options) \<and>
   (e' \<notin> fst ` set calls \<longrightarrow>
      getOptions (withToolbar_calls calls (initial_store h)) e' = \<lparr>items = None\<rparr>)"
proof (intro conjI impI)
  assume "e \<notin> fst ` set later"
  then show "getOptions (withToolbar_calls later (snd (withToolbar e (Some options) s))) e = options"
    by (simp add: getOptions_def withToolbar_calls_other_editor withToolbar_def Let_def)
next
  show "getOptions (snd (withToolbar e (Some options) s)) e = options"
    by (simp add: getOptions_def withToolbar_def Let_def)
  show "getOptions (snd (withToolbar e None s)) e = \<lparr>items = None\<rparr>"
    by (simp add: getOptions_def withToolbar_def Let_def)
  assume "e' \<notin> fst ` set calls"
  then have "TOOLBAR_OPTIONS (withToolbar_calls calls (initial_store h)) e' = None"
    by (simp add: withToolbar_calls_other_editor initial_store_def)
  then show "getOptions (withToolbar_calls calls (initial_store h)) e' = \<lparr>items = None\<rparr>"
    by (simp add: getOptions_def)
qed

theorem getOptions_withToolbar_witness:
  "getOptions (snd (withToolbar 0 (Some \<lparr>items = Some example_items\<rparr>) (initial_store example_heap))) 0
     = \<lparr>items = Some example_items\<rparr> \<and>
   getOptions (withToolbar_calls [(2, None)]
                 (snd (withToolbar 0 (Some \<lparr>items = Some example_items\<rparr>) (initial_store example_heap)))) 0
     = \<lparr>items = Some example_items\<rparr> \<and>
   getOptions (withToolbar_calls [(0, Some \<lparr>items = Some example_items\<rparr>), (2, None)]
                 (initial_store example_heap)) 1 = \<lparr>items = None\<rparr>"
proof -
  have "(1::nat) \<notin> fst ` set [(0, Some \<lparr>items = Some example_items\<rparr>), (2::nat, None)]"
    and "(0::nat) \<notin> fst ` set [(2::nat, None :: (nat, string) Toolbar option)]"
    by simp_all
  with getOptions_withToolbar[of 0 "\<lparr>items = Some example_items\<rparr>" "initial_store example_heap"
      "[(2, None)]" 1 "[(0, Some \<lparr>items = Some example_items\<rparr>), (2, None)]" example_heap]
  show ?thesis by blast
qed

text \<open>
  C10. \<open>withToolbar\<close> returns the editor it was given. The editor object after the call
  is the object before the call with \<open>onToolbar\<close> set to the identity on item lists: its
  data and its \<open>onSelectionChange\<close> are as before. Every other editor object is
  unchanged, and \<open>isToolbarEditor\<close> holds of the editor afterwards.
\<close>

theorem withToolbar_frame:
  "fst (withToolbar e options s) = e \<and>
   heap (snd (withToolbar e options s)) e = (heap s e)\<lparr>onToolbar := Some (\<lambda>items'. items')\<rparr> \<and>
   data (heap (snd (withToolbar e options s)) e) = data (heap s e) \<and>
   onSelectionChange (heap (snd (withToolbar e options s)) e) = onSelectionChange (heap s e) \<and>
   (\<exists>f. onToolbar (heap (snd (withToolbar e options s)) e) = Some f \<and> (\<forall>xs. f xs = xs)) \<and>
   (\<forall>e'. e' \<noteq> e \<longrightarrow> heap (snd (withToolbar e options s)) e' = heap s e') \<and>
   isToolbarEditor (snd (withToolbar e options s)) e"
  by (simp add: withToolbar_def isToolbarEditor_def Let_def)

theorem withToolbar_frame_witness:
  "\<not> isToolbarEditor (initial_store example_heap) 0 \<and>
   fst (withToolbar 0 None (initial_store example_heap)) = 0 \<and>
   heap (snd (withToolbar 0 None (initial_store example_heap))) 0 =
     \<lparr>data = 0, onSelectionChange = External 0, onToolbar = Some (\<lambda>items'. items')\<rparr> \<and>
   heap (snd (withToolbar 0 None (initial_store example_heap))) 1 = example_heap 1 \<and>
   isToolbarEditor (snd (withToolbar 0 None (initial_store example_heap))) 0"
proof -
  have "\<not> isToolbarEditor (initial_store example_heap) 0"
    by (simp add: isToolbarEditor_def initial_store_def example_heap_def)
  moreover have "heap (initial_store example_heap) 0 = \<lparr>data = 0, onSelectionChange = External 0, onToolbar = None\<rparr>"
    "heap (initial_store example_heap) 1 = example_heap 1"
    by (simp_all add: initial_store_def example_heap_def)
  moreover note withToolbar_frame[of 0 None "initial_store example_heap"]
  ultimately show ?thesis by simp
qed

subsection \<open>Dispatch\<close>

text \<open>
  When no listener of the array removes a listener while it runs (each leaves the array
  as it is or appends to it), \<open>forEach\<close> on the live array is a plain traversal of the
  array as it was at the start: a listener appended during the traversal lies beyond the
  length that was read at the start.
\<close>

lemma forEach_from_append_only:
  assumes "\<forall>cb\<in>set ls. \<forall>w'. \<exists>added. eventListeners (callback ext cb w') = eventListeners w' @ added"
    and "\<exists>added. eventListeners w = ls @ added" and "k + n = length ls"
  shows "forEach_from ext n k w = call_each ext (drop k ls) w"
  using assms(2,3)
proof (induction n arbitrary: k w)
  case 0
  then show ?case by simp
next
  case (Suc n)
  from Suc.prems(1) obtain added where now: "eventListeners w = ls @ added" by blast
  from Suc.prems(2) have k: "k < length ls" by simp
  then have mem: "ls ! k \<in> set ls" by simp
  have at_k: "eventListeners w ! k = ls ! k" "k < length (eventListeners w)"
    using k now by (simp_all add: nth_append)
  from assms(1) mem obtain more where
    "eventListeners (callback ext (ls ! k) w) = eventListeners w @ more" by blast
  then have keep: "\<exists>added. eventListeners (callback ext (ls ! k) w) = ls @ added"
    using now by simp
  have "forEach_from ext (Suc n) k w = forEach_from ext n (Suc k) (callback ext (ls ! k) w)"
    using at_k by simp
  also have "\<dots> = call_each ext (drop (Suc k) ls) (callback ext (ls ! k) w)"
    using Suc.IH[OF keep] Suc.prems(2) by simp
  also have "\<dots> = call_each ext (drop k ls) w"
    using k by (simp add: Cons_nth_drop_Suc[symmetric])
  finally show ?case .
qed

lemma dispatch_append_only:
  assumes "\<forall>cb\<in>set (eventListeners w). \<forall>w'.
      \<exists>added. eventListeners (callback ext cb w') = eventListeners w' @ added"
  shows "dispatch ext w = call_each ext (eventListeners w) w"
  unfolding dispatch_def
  using forEach_from_append_only[OF assms, of w 0 "length (eventListeners w)"] by simp

lemma dispatch_stable:
  assumes "\<forall>cb\<in>set (eventListeners w). \<forall>w'. eventListeners (callback ext cb w') = eventListeners w'"
  shows "dispatch ext w = call_each ext (eventListeners w) w"
  using assms by (intro dispatch_append_only) simp

lemma callback_itemsState: "itemsState (callback ext cb w) = itemsState w"
  by (cases cb)
    (simp_all add: setActive_def setDisabled_def setValue_def call_outside_def Let_def split: prod.split)

lemma forEach_from_itemsState: "itemsState (forEach_from ext n k w) = itemsState w"
  by (induction n arbitrary: k w) (simp_all add: callback_itemsState)

lemma dispatch_itemsState: "itemsState (dispatch ext w) = itemsState w"
  by (simp add: dispatch_def forEach_from_itemsState)

lemma call_each_keeps_handler:
  assumes "\<forall>cb\<in>set ls. \<forall>w'. onSelectionChange (editor (callback ext cb w')) = onSelectionChange (editor w')"
  shows "onSelectionChange (editor (call_each ext ls w)) = onSelectionChange (editor w)"
  using assms by (induction ls arbitrary: w) simp_all

lemma adding_world_eq:
  "adding_world =
     \<lparr>editor = \<lparr>data = 0, onSelectionChange = Wrapper (External 0) (Some example_items),
                 onToolbar = Some (\<lambda>items'. items')\<rparr>,
      eventListeners =
        [Foreign 1,
         ButtonOnChange 1 0 (Some (\<lambda>d. d = 1)) (Some (\<lambda>d. 5 < d)),
         DropdownOnChange 2 1 (Some (\<lambda>d. if d = 1 then ''h1'' else ''p'')) None,
         ButtonOnChange 3 2 None None,
         DropdownOnChange 4 3 None None,
         Foreign 2],
      itemsState = [],
      active = (\<lambda>i. True)(0 := False, 2 := False),
      disabled = (\<lambda>i. True)(0 := False, 1 := False, 2 := False, 3 := False),
      value' = (\<lambda>i. Some ''old'')(1 := Some ''p'', 3 := None)\<rparr>"
  by (simp add: adding_world_def adding_listeners_world_eq Toolbar_effect_def dispatch_def
      call_outside_def adding_def addEventListener_def example_editor_eq
      setActive_def setDisabled_def setValue_def Let_def numeral_eq_Suc)

lemma adding_append_only:
  "\<exists>added. eventListeners (callback adding cb w') = eventListeners w' @ added"
  by (cases cb)
    (simp_all add: setActive_def setDisabled_def setValue_def call_outside_def adding_def
      addEventListener_def Let_def)

text \<open>
  C5 (as amended). \<open>addEventListener\<close> appends, so the array is in the order of
  registration. Provided no registered listener removes a listener from the array while
  it is being invoked (it may add listeners), \<open>dispatch\<close> invokes every listener that is
  in the array when the dispatch starts, each exactly once, in the order of the array.
\<close>

theorem dispatch_calls_each_listener_in_order:
  "fst (addEventListener cb (eventListeners w)) = eventListeners w @ [cb] \<and>
   ((\<forall>cb\<in>set (eventListeners w). \<forall>w'.
        \<exists>added. eventListeners (callback ext cb w') = eventListeners w' @ added) \<longrightarrow>
      dispatch ext w = call_each ext (eventListeners w) w)"
  by (simp add: addEventListener_def dispatch_append_only)

theorem dispatch_calls_each_listener_in_order_witness:
  "eventListeners adding_listeners_world =
     [Foreign 1,
      ButtonOnChange 1 0 (onActive bold_button) (onDisabled bold_button),
      DropdownOnChange 2 1 (onActive heading_dropdown) (onDisabled heading_dropdown),
      ButtonOnChange 3 2 None None,
      DropdownOnChange 4 3 None None] \<and>
   disabled adding_listeners_world 0 \<and> value' adding_listeners_world 1 = Some ''old'' \<and>
   dispatch adding adding_listeners_world =
     call_each adding (eventListeners adding_listeners_world) adding_listeners_world \<and>
   eventListeners (dispatch adding adding_listeners_world) =
     eventListeners adding_listeners_world @ [Foreign 2] \<and>
   \<not> disabled (dispatch adding adding_listeners_world) 0 \<and>
   value' (dispatch adding adding_listeners_world) 1 = Some ''p''"
proof -
  let ?w = adding_listeners_world
  have "\<forall>cb\<in>set (eventListeners ?w). \<forall>w'.
      \<exists>added. eventListeners (callback adding cb w') = eventListeners w' @ added"
    by (simp add: adding_append_only)
  with dispatch_calls_each_listener_in_order[of "Foreign 0" ?w adding]
  have eq: "dispatch adding ?w = call_each adding (eventListeners ?w) ?w"
    by blast
  have "eventListeners (call_each adding (eventListeners ?w) ?w) = eventListeners ?w @ [Foreign 2]"
    "\<not> disabled (call_each adding (eventListeners ?w) ?w) 0"
    "value' (call_each adding (eventListeners ?w) ?w) 1 = Some ''p''"
    by (simp_all add: adding_listeners_world_eq example_editor_eq call_outside_def adding_def
        addEventListener_def setActive_def setDisabled_def setValue_def)
  with eq show ?thesis
    by (simp add: adding_listeners_world_eq bold_button_def heading_dropdown_def)
qed

text \<open>
  C5 as stated fails for a listener that unsubscribes while it is invoked: with a
  one-shot listener registered before the listener of a button, \<open>forEach\<close> calls the
  one-shot listener at index \<open>0\<close>, the array shrinks to the listener of the button, and
  index \<open>1\<close> is empty: the listener of the button, registered all along, is not invoked
  (its button stays inactive although its \<open>onActive\<close> is true of the editor).
\<close>

theorem dispatch_skips_listener_counterexample:
  "eventListeners once_world = [Foreign 0, ButtonOnChange 1 0 (Some (\<lambda>d. True)) None] \<and>
   \<not> active (dispatch once once_world) 0 \<and>
   active (call_each once (eventListeners once_world) once_world) 0 \<and>
   dispatch once once_world \<noteq> call_each once (eventListeners once_world) once_world"
proof -
  have ls: "eventListeners once_world = [Foreign 0, ButtonOnChange 1 0 (Some (\<lambda>d. True)) None]"
    by (simp add: once_world_def ToolbarButtonDefault_effect_def addEventListener_def initial_world_def Let_def)
  have a: "\<not> active (dispatch once once_world) 0"
    by (simp add: once_world_def dispatch_def ToolbarButtonDefault_effect_def addEventListener_def
        initial_world_def example_editor_eq Let_def setActive_def setDisabled_def numeral_eq_Suc
        call_outside_def once_def splice_js_def)
  have b: "active (call_each once (eventListeners once_world) once_world) 0"
    by (simp add: once_world_def ToolbarButtonDefault_effect_def addEventListener_def
        initial_world_def example_editor_eq Let_def setActive_def setDisabled_def
        call_outside_def once_def splice_js_def)
  from a b have "dispatch once once_world \<noteq> call_each once (eventListeners once_world) once_world"
    by auto
  with ls a b show ?thesis by simp
qed

subsection \<open>The wrapper of \<open>onSelectionChange\<close>\<close>

lemma mounted_world_handler:
  "onSelectionChange (editor mounted_world) = Wrapper (External 0) (Some example_items)"
  by (simp add: mounted_world_def Toolbar_effect_def dispatch_def example_world_eq
      example_editor_eq Let_def setActive_def setDisabled_def setValue_def numeral_eq_Suc)

lemma call_handler_mounted_world:
  "call_handler moving (External 0) mounted_world =
     Inr (mounted_world\<lparr>editor := (editor mounted_world)\<lparr>data := 1\<rparr>\<rparr>)"
  by (simp add: mounted_world_def Toolbar_effect_def dispatch_def example_world_eq
      example_editor_eq Let_def setActive_def setDisabled_def setValue_def numeral_eq_Suc
      call_outside_def moving_def)

lemma mounted_world_listeners:
  "eventListeners mounted_world =
     [ButtonOnChange 1 0 (Some (\<lambda>d. d = 1)) (Some (\<lambda>d. 5 < d)),
      DropdownOnChange 2 1 (Some (\<lambda>d. if d = 1 then ''h1'' else ''p'')) None,
      ButtonOnChange 3 2 None None,
      DropdownOnChange 4 3 None None]"
  by (simp add: mounted_world_def Toolbar_effect_def dispatch_def example_world_eq
      example_editor_eq Let_def setActive_def setDisabled_def setValue_def numeral_eq_Suc)

lemma mounted_world_onToolbar:
  "onToolbar (editor mounted_world) = Some (\<lambda>items'. items')"
  by (simp add: mounted_world_def Toolbar_effect_def dispatch_def example_world_eq
      example_editor_eq Let_def setActive_def setDisabled_def setValue_def numeral_eq_Suc)

lemma call_handler_adding_world:
  "call_handler adding (External 0) adding_world =
     Inr (adding_world\<lparr>editor := (editor adding_world)\<lparr>data := 1\<rparr>\<rparr>)"
  by (simp add: adding_world_eq call_outside_def adding_def)

lemma adding_keeps_editor:
  "cb \<in> set (eventListeners adding_world) \<Longrightarrow> editor (callback adding cb w') = editor w'"
  by (auto simp: adding_world_eq setActive_def setDisabled_def setValue_def call_outside_def
      adding_def Let_def)

text \<open>
  C1 (as amended). The layout effect assigns to \<open>editor.onSelectionChange\<close> the wrapper
  over the handler it found, and then dispatches once; when the listeners registered at
  that moment remove no listener and leave \<open>editor.onSelectionChange\<close> alone, the handler
  of the editor after the effect is still that wrapper. Every call of
  \<open>editor.onSelectionChange\<close> on an editor whose handler is the wrapper first calls the
  wrapped handler, whose result (also its failure) is kept, then dispatches to the
  listeners in the state that handler left, then sets the items. Provided no listener
  removes a listener from the array while it is invoked, that dispatch invokes every
  listener registered in that state, each once and in order.
\<close>

theorem Toolbar_effect_wraps_onSelectionChange:
  "fst (Toolbar_effect ext itemsProp w) =
     dispatch ext
       (w\<lparr>editor := (editor w)\<lparr>onSelectionChange := Wrapper (onSelectionChange (editor w)) itemsProp\<rparr>\<rparr>) \<and>
   ((\<forall>cb\<in>set (eventListeners w). \<forall>w'.
        (\<exists>added. eventListeners (callback ext cb w') = eventListeners w' @ added) \<and>
        onSelectionChange (editor (callback ext cb w')) = onSelectionChange (editor w')) \<longrightarrow>
      onSelectionChange (editor (fst (Toolbar_effect ext itemsProp w))) =
        Wrapper (onSelectionChange (editor w)) itemsProp) \<and>
   (onSelectionChange (editor v) = Wrapper h itemsProp \<longrightarrow>
      selectionChange ext v =
        (case call_handler ext h v of
           Inl err \<Rightarrow> Inl err
         | Inr v1 \<Rightarrow>
             (case onToolbar (editor (dispatch ext v1)) of
                None \<Rightarrow> Inl TypeError
              | Some f \<Rightarrow>
                  Inr (setItems (f (case itemsProp of Some xs \<Rightarrow> xs | None \<Rightarrow> [])) (dispatch ext v1))))) \<and>
   (onSelectionChange (editor v) = Wrapper h itemsProp \<and>
    call_handler ext h v = Inr v1 \<and>
    (\<forall>cb\<in>set (eventListeners v1). \<forall>w'.
        \<exists>added. eventListeners (callback ext cb w') = eventListeners w' @ added) \<longrightarrow>
      selectionChange ext v =
        (case onToolbar (editor (call_each ext (eventListeners v1) v1)) of
           None \<Rightarrow> Inl TypeError
         | Some f \<Rightarrow>
             Inr (setItems (f (case itemsProp of Some xs \<Rightarrow> xs | None \<Rightarrow> []))
                    (call_each ext (eventListeners v1) v1))))"
proof (intro conjI impI)
  show "fst (Toolbar_effect ext itemsProp w) =
     dispatch ext
       (w\<lparr>editor := (editor w)\<lparr>onSelectionChange := Wrapper (onSelectionChange (editor w)) itemsProp\<rparr>\<rparr>)"
    by (simp add: Toolbar_effect_def Let_def)
next
  let ?w1 = "w\<lparr>editor := (editor w)\<lparr>onSelectionChange := Wrapper (onSelectionChange (editor w)) itemsProp\<rparr>\<rparr>"
  assume frame: "\<forall>cb\<in>set (eventListeners w). \<forall>w'.
        (\<exists>added. eventListeners (callback ext cb w') = eventListeners w' @ added) \<and>
        onSelectionChange (editor (callback ext cb w')) = onSelectionChange (editor w')"
  then have "dispatch ext ?w1 = call_each ext (eventListeners w) ?w1"
    using dispatch_append_only[of ?w1 ext] by simp
  moreover have "onSelectionChange (editor (call_each ext (eventListeners w) ?w1)) =
      onSelectionChange (editor ?w1)"
    using frame by (intro call_each_keeps_handler) simp
  ultimately show "onSelectionChange (editor (fst (Toolbar_effect ext itemsProp w))) =
        Wrapper (onSelectionChange (editor w)) itemsProp"
    by (simp add: Toolbar_effect_def Let_def)
next
  assume "onSelectionChange (editor v) = Wrapper h itemsProp"
  then show "selectionChange ext v =
        (case call_handler ext h v of
           Inl err \<Rightarrow> Inl err
         | Inr v1 \<Rightarrow>
             (case onToolbar (editor (dispatch ext v1)) of
                None \<Rightarrow> Inl TypeError
              | Some f \<Rightarrow>
                  Inr (setItems (f (case itemsProp of Some xs \<Rightarrow> xs | None \<Rightarrow> [])) (dispatch ext v1))))"
    by (simp add: selectionChange_def Let_def split: sum.split)
next
  assume a: "onSelectionChange (editor v) = Wrapper h itemsProp \<and>
    call_handler ext h v = Inr v1 \<and>
    (\<forall>cb\<in>set (eventListeners v1). \<forall>w'.
        \<exists>added. eventListeners (callback ext cb w') = eventListeners w' @ added)"
  then have "dispatch ext v1 = call_each ext (eventListeners v1) v1"
    by (intro dispatch_append_only) simp
  with a show "selectionChange ext v =
        (case onToolbar (editor (call_each ext (eventListeners v1) v1)) of
           None \<Rightarrow> Inl TypeError
         | Some f \<Rightarrow>
             Inr (setItems (f (case itemsProp of Some xs \<Rightarrow> xs | None \<Rightarrow> []))
                    (call_each ext (eventListeners v1) v1)))"
    by (simp add: selectionChange_def Let_def)
qed

theorem Toolbar_effect_wraps_onSelectionChange_witness:
  "onSelectionChange (editor adding_listeners_world) = External 0 \<and>
   onSelectionChange (editor (fst (Toolbar_effect adding (Some example_items) adding_listeners_world))) =
     Wrapper (External 0) (Some example_items) \<and>
   disabled adding_listeners_world 0 \<and> value' adding_world 1 = Some ''p'' \<and> \<not> active adding_world 0 \<and>
   (\<exists>w'. selectionChange adding adding_world = Inr w' \<and> data (editor w') = 1 \<and>
         active w' 0 \<and> \<not> disabled w' 0 \<and> value' w' 1 = Some ''h1'' \<and> itemsState w' = example_items)"
proof -
  let ?v1 = "adding_world\<lparr>editor := (editor adding_world)\<lparr>data := 1\<rparr>\<rparr>"
  have h0: "onSelectionChange (editor adding_listeners_world) = External 0"
    by (simp add: adding_listeners_world_eq example_editor_eq)
  have before: "disabled adding_listeners_world 0 \<and> value' adding_world 1 = Some ''p'' \<and> \<not> active adding_world 0"
    by (simp add: adding_listeners_world_eq adding_world_eq)
  have frame: "\<forall>cb\<in>set (eventListeners adding_listeners_world). \<forall>w'.
        (\<exists>added. eventListeners (callback adding cb w') = eventListeners w' @ added) \<and>
        onSelectionChange (editor (callback adding cb w')) = onSelectionChange (editor w')"
    by (simp add: adding_append_only)
      (simp add: adding_listeners_world_eq setActive_def setDisabled_def setValue_def
        call_outside_def adding_def)
  have handler: "onSelectionChange (editor adding_world) = Wrapper (External 0) (Some example_items)"
    by (simp add: adding_world_eq)
  have stable: "\<forall>cb\<in>set (eventListeners ?v1). \<forall>w'.
        \<exists>added. eventListeners (callback adding cb w') = eventListeners w' @ added"
    by (simp add: adding_append_only)
  note inst = Toolbar_effect_wraps_onSelectionChange[where w = adding_listeners_world and ext = adding
      and itemsProp = "Some example_items" and v = adding_world and h = "External 0" and ?v1.0 = ?v1]
  from inst have "(\<forall>cb\<in>set (eventListeners adding_listeners_world). \<forall>w'.
        (\<exists>added. eventListeners (callback adding cb w') = eventListeners w' @ added) \<and>
        onSelectionChange (editor (callback adding cb w')) = onSelectionChange (editor w')) \<longrightarrow>
      onSelectionChange (editor (fst (Toolbar_effect adding (Some example_items) adding_listeners_world))) =
        Wrapper (onSelectionChange (editor adding_listeners_world)) (Some example_items)"
    by (elim conjE)
  with frame h0
  have a: "onSelectionChange (editor (fst (Toolbar_effect adding (Some example_items) adding_listeners_world))) =
     Wrapper (External 0) (Some example_items)"
    by simp
  from inst have "onSelectionChange (editor adding_world) = Wrapper (External 0) (Some example_items) \<and>
    call_handler adding (External 0) adding_world = Inr ?v1 \<and>
    (\<forall>cb\<in>set (eventListeners ?v1). \<forall>w'.
        \<exists>added. eventListeners (callback adding cb w') = eventListeners w' @ added) \<longrightarrow>
      selectionChange adding adding_world =
        (case onToolbar (editor (call_each adding (eventListeners ?v1) ?v1)) of
           None \<Rightarrow> Inl TypeError
         | Some f \<Rightarrow>
             Inr (setItems (f (case Some example_items of Some xs \<Rightarrow> xs | None \<Rightarrow> []))
                    (call_each adding (eventListeners ?v1) ?v1)))"
    by (elim conjE)
  with handler call_handler_adding_world stable
  have "selectionChange adding adding_world =
        (case onToolbar (editor (call_each adding (eventListeners ?v1) ?v1)) of
           None \<Rightarrow> Inl TypeError
         | Some f \<Rightarrow>
             Inr (setItems (f (case Some example_items of Some xs \<Rightarrow> xs | None \<Rightarrow> []))
                    (call_each adding (eventListeners ?v1) ?v1)))"
    by blast
  then have "\<exists>w'. selectionChange adding adding_world = Inr w' \<and> data (editor w') = 1 \<and>
         active w' 0 \<and> \<not> disabled w' 0 \<and> value' w' 1 = Some ''h1'' \<and> itemsState w' = example_items"
    by (simp add: adding_world_eq call_outside_def adding_def addEventListener_def
        setActive_def setDisabled_def setValue_def setItems_def)
  with h0 a before show ?thesis by simp
qed

text \<open>
  C1 as stated fails when a listener unsubscribes while it is invoked: on a mounted
  toolbar with a one-shot listener registered before the listener of a button, a call
  of the wrapper runs the wrapped handler and dispatches, but the listener of the
  button, which is registered before and after the call, is not notified: the state of
  its button is untouched, where invoking the listener would make the button active.
\<close>

theorem wrapper_skips_listener_counterexample:
  "onSelectionChange (editor one_shot_world) = Wrapper (External 0) (Some example_items) \<and>
   eventListeners one_shot_world =
     [Foreign 1, ButtonOnChange 1 0 (onActive bold_button) (onDisabled bold_button)] \<and>
   (case selectionChange one_shot one_shot_world of
      Inl err \<Rightarrow> False
    | Inr w' \<Rightarrow>
        eventListeners w' = [ButtonOnChange 1 0 (onActive bold_button) (onDisabled bold_button)] \<and>
        \<not> active w' 0 \<and>
        active (callback one_shot (ButtonOnChange 1 0 (onActive bold_button) (onDisabled bold_button)) w') 0)"
  by (simp add: one_shot_world_def eval_defs one_shot_def splice_js_def)

subsection \<open>The state of the items after a notification\<close>

lemma callback_item_frame:
  assumes "component cb = Some i"
  shows "editor (callback ext cb w) = editor w"
    and "eventListeners (callback ext cb w) = eventListeners w"
    and "itemsState (callback ext cb w) = itemsState w"
    and "j \<noteq> i \<Longrightarrow> active (callback ext cb w) j = active w j"
    and "j \<noteq> i \<Longrightarrow> disabled (callback ext cb w) j = disabled w j"
    and "j \<noteq> i \<Longrightarrow> value' (callback ext cb w) j = value' w j"
  using assms by (cases cb; simp add: setActive_def setDisabled_def setValue_def Let_def)+

lemma call_each_items_frame:
  assumes "\<forall>cb\<in>set ls. component cb \<noteq> None"
  shows "editor (call_each ext ls w) = editor w \<and>
         eventListeners (call_each ext ls w) = eventListeners w"
  using assms
proof (induction ls arbitrary: w)
  case Nil
  show ?case by simp
next
  case (Cons cb cbs)
  then obtain i where "component cb = Some i" by auto
  with Cons show ?case by (simp add: callback_item_frame)
qed

lemma dispatch_items:
  assumes "\<forall>cb\<in>set (eventListeners w). component cb \<noteq> None"
  shows "dispatch ext w = call_each ext (eventListeners w) w"
proof (rule dispatch_stable, intro ballI allI)
  fix cb w'
  assume "cb \<in> set (eventListeners w)"
  with assms obtain i where "component cb = Some i" by auto
  then show "eventListeners (callback ext cb w') = eventListeners w'"
    by (rule callback_item_frame(2))
qed

text \<open>
  A listener sets the state of its own component instance only, and a listener from
  outside the package sets the state of none.
\<close>

lemma call_each_append: "call_each ext (xs @ ys) w = call_each ext ys (call_each ext xs w)"
  by (induction xs arbitrary: w) simp_all

lemma callback_other_component:
  assumes "component cb \<noteq> Some i"
  shows "active (callback ext cb w) i = active w i \<and>
         disabled (callback ext cb w) i = disabled w i \<and>
         value' (callback ext cb w) i = value' w i"
  using assms
  by (cases cb)
    (simp_all add: setActive_def setDisabled_def setValue_def call_outside_def Let_def split: prod.split)

lemma call_each_other_component:
  assumes "Some i \<notin> component ` set ls"
  shows "active (call_each ext ls w) i = active w i \<and>
         disabled (call_each ext ls w) i = disabled w i \<and>
         value' (call_each ext ls w) i = value' w i"
  using assms
proof (induction ls arbitrary: w)
  case Nil
  show ?case by simp
next
  case (Cons cb cbs)
  then have "component cb \<noteq> Some i" "Some i \<notin> component ` set cbs" by auto
  from callback_other_component[OF this(1), of ext w] Cons.IH[OF this(2), of "callback ext cb w"]
  show ?case by simp
qed

lemma call_each_editor:
  assumes "\<forall>cb\<in>set ls. \<forall>w'. editor (callback ext cb w') = editor w'"
  shows "editor (call_each ext ls w) = editor w"
  using assms by (induction ls arbitrary: w) simp_all

text \<open>The state of an item after a traversal is what its listener set when it was called.\<close>

lemma call_each_registered_item:
  assumes "registered_item ls cb" and "component cb = Some i"
  shows "\<exists>pre post. ls = pre @ cb # post \<and>
     active (call_each ext ls w) i = active (callback ext cb (call_each ext pre w)) i \<and>
     disabled (call_each ext ls w) i = disabled (callback ext cb (call_each ext pre w)) i \<and>
     value' (call_each ext ls w) i = value' (callback ext cb (call_each ext pre w)) i"
proof -
  from assms(1) have "cb \<in> set ls" by (simp add: registered_item_def)
  then obtain pre post where split: "ls = pre @ cb # post" and last: "cb \<notin> set post"
    by (auto dest: split_list_last)
  have "Some i \<notin> component ` set post"
  proof
    assume "Some i \<in> component ` set post"
    then obtain c where c: "c \<in> set post" "component c = Some i" by auto
    with assms split have "c = cb" by (simp add: registered_item_def)
    with c(1) last show False by simp
  qed
  from call_each_other_component[OF this, of ext "callback ext cb (call_each ext pre w)"] split
  show ?thesis by (auto simp: call_each_append)
qed

lemma call_each_button_state:
  assumes "registered_item ls (ButtonOnChange r i oa od)"
  shows "\<exists>pre post. ls = pre @ ButtonOnChange r i oa od # post \<and>
     active (call_each ext ls w) i =
       (case oa of Some f \<Rightarrow> f (data (editor (call_each ext pre w))) | None \<Rightarrow> False) \<and>
     disabled (call_each ext ls w) i =
       (case od of Some g \<Rightarrow> g (data (editor (call_each ext pre w))) | None \<Rightarrow> False)"
  using call_each_registered_item[OF assms, of i ext w]
  by (simp add: setActive_def setDisabled_def Let_def) blast

lemma call_each_dropdown_state:
  assumes "registered_item ls (DropdownOnChange r i oa od)"
  shows "\<exists>pre post. ls = pre @ DropdownOnChange r i oa od # post \<and>
     value' (call_each ext ls w) i =
       (case oa of Some f \<Rightarrow> Some (f (data (editor (call_each ext pre w)))) | None \<Rightarrow> None) \<and>
     disabled (call_each ext ls w) i =
       (case od of Some g \<Rightarrow> g (data (editor (call_each ext pre w))) | None \<Rightarrow> False)"
  using call_each_registered_item[OF assms, of i ext w]
  by (simp add: setValue_def setDisabled_def Let_def) blast

text \<open>The effect of an item registers the listener of the item.\<close>

lemma ToolbarButtonDefault_effect_registers:
  assumes "Some i \<notin> component ` set (eventListeners w)"
  shows "registered_item (eventListeners (fst (ToolbarButtonDefault_effect r i props w)))
           (ButtonOnChange r i (onActive props) (onDisabled props))"
  using assms
  by (force simp: registered_item_def ToolbarButtonDefault_effect_def addEventListener_def Let_def)

lemma ToolbarDropdownDefault_effect_registers:
  assumes "Some i \<notin> component ` set (eventListeners w)"
  shows "registered_item (eventListeners (fst (ToolbarDropdownDefault_effect r i props w)))
           (DropdownOnChange r i (onActive props) (onDisabled props))"
  using assms
  by (force simp: registered_item_def ToolbarDropdownDefault_effect_def addEventListener_def Let_def)

lemma registered_item_append:
  assumes "registered_item ls c" and "component new \<noteq> component c"
  shows "registered_item (fst (addEventListener new ls)) c"
  using assms by (auto simp: registered_item_def addEventListener_def)

text \<open>
  C3 (as amended). The layout effect does not set the items: the state \<open>items\<close> after it
  is the state before it (the empty list on the initial mount). After a selection-change
  notification on a mounted toolbar (the wrapped handler returns and the editor has
  \<open>onToolbar\<close>), the state \<open>items\<close> is \<open>editor.onToolbar\<close> applied to the \<open>items\<close>
  property, or to the empty list when the property is absent, and the children of the
  toolbar are the rendering of that list.
\<close>

theorem selectionChange_sets_items:
  "itemsState (fst (Toolbar_effect ext itemsProp w0)) = itemsState w0 \<and>
   (onSelectionChange (editor w) = Wrapper h itemsProp \<and>
    call_handler ext h w = Inr w1 \<and>
    onToolbar (editor (dispatch ext w1)) = Some f \<longrightarrow>
      (\<exists>w'. selectionChange ext w = Inr w' \<and>
            onToolbar (editor w') = Some f \<and>
            itemsState w' = f (case itemsProp of Some xs \<Rightarrow> xs | None \<Rightarrow> []) \<and>
            Toolbar_children w' =
              map (\<lambda>(key, item). renderItem item key)
                (enumerate 0 (f (case itemsProp of Some xs \<Rightarrow> xs | None \<Rightarrow> [])))))"
proof (intro conjI impI)
  show "itemsState (fst (Toolbar_effect ext itemsProp w0)) = itemsState w0"
    by (simp add: Toolbar_effect_def Let_def dispatch_itemsState)
next
  assume a: "onSelectionChange (editor w) = Wrapper h itemsProp \<and>
    call_handler ext h w = Inr w1 \<and> onToolbar (editor (dispatch ext w1)) = Some f"
  let ?w' = "setItems (f (case itemsProp of Some xs \<Rightarrow> xs | None \<Rightarrow> [])) (dispatch ext w1)"
  from a have "selectionChange ext w = Inr ?w'"
    by (simp add: selectionChange_def Let_def)
  moreover from a have "onToolbar (editor ?w') = Some f"
    by (simp add: setItems_def)
  moreover have "itemsState ?w' = f (case itemsProp of Some xs \<Rightarrow> xs | None \<Rightarrow> [])"
    by (simp add: setItems_def)
  moreover have "Toolbar_children ?w' =
              map (\<lambda>(key, item). renderItem item key)
                (enumerate 0 (f (case itemsProp of Some xs \<Rightarrow> xs | None \<Rightarrow> [])))"
    by (simp add: Toolbar_children_def setItems_def)
  ultimately show "\<exists>w'. selectionChange ext w = Inr w' \<and>
            onToolbar (editor w') = Some f \<and>
            itemsState w' = f (case itemsProp of Some xs \<Rightarrow> xs | None \<Rightarrow> []) \<and>
            Toolbar_children w' =
              map (\<lambda>(key, item). renderItem item key)
                (enumerate 0 (f (case itemsProp of Some xs \<Rightarrow> xs | None \<Rightarrow> [])))"
    by blast
qed

theorem selectionChange_sets_items_witness:
  "itemsState mounted_world = [] \<and>
   (\<exists>w'. selectionChange moving mounted_world = Inr w' \<and>
         onToolbar (editor w') = Some (\<lambda>items'. items') \<and>
         itemsState w' = example_items)"
proof -
  let ?w1 = "mounted_world\<lparr>editor := (editor mounted_world)\<lparr>data := 1\<rparr>\<rparr>"
  have "itemsState example_world = []" by (simp add: example_world_eq)
  with selectionChange_sets_items[of moving "Some example_items" example_world]
  have a: "itemsState mounted_world = []" by (simp add: mounted_world_def)
  have items: "\<forall>cb\<in>set (eventListeners ?w1). component cb \<noteq> None"
    by (simp add: mounted_world_listeners)
  have "editor (dispatch moving ?w1) = editor ?w1"
    using call_each_items_frame[OF items, of moving ?w1] dispatch_items[OF items, of moving] by simp
  then have f: "onToolbar (editor (dispatch moving ?w1)) = Some (\<lambda>items'. items')"
    by (simp add: mounted_world_onToolbar)
  from selectionChange_sets_items[of moving "Some example_items" example_world mounted_world
      "External 0" ?w1 "\<lambda>items'. items'"] mounted_world_handler call_handler_mounted_world f
  have "\<exists>w'. selectionChange moving mounted_world = Inr w' \<and>
         onToolbar (editor w') = Some (\<lambda>items'. items') \<and>
         itemsState w' = example_items"
    by auto
  with a show ?thesis by simp
qed

text \<open>
  C3 as stated fails on the initial mount: with three items passed to a toolbar on an
  editor whose \<open>onToolbar\<close> is the identity, the toolbar has no children after the layout
  effect, and its state \<open>items\<close> is not \<open>onToolbar\<close> of the property.
\<close>

theorem Toolbar_mount_items_counterexample:
  "(case onToolbar (editor (fst (Toolbar_effect moving (Some example_items) (initial_world example_editor)))) of
      None \<Rightarrow> False
    | Some f \<Rightarrow>
        itemsState (fst (Toolbar_effect moving (Some example_items) (initial_world example_editor)))
          \<noteq> f example_items) \<and>
   Toolbar_children (fst (Toolbar_effect moving (Some example_items) (initial_world example_editor))) = []"
  by (simp add: Toolbar_effect_def dispatch_def initial_world_def example_editor_eq Let_def
      Toolbar_children_def example_items_def)

text \<open>
  C2 (as amended). On a mounted toolbar, take a selection-change notification that
  returns (the wrapped handler returns and the editor has \<open>onToolbar\<close>) and during whose
  dispatch no listener removes a listener from the array or changes the editor. After
  it, every button with \<open>onActive\<close> and \<open>onDisabled\<close> whose listener was registered when
  the dispatch started has \<open>active\<close> and \<open>disabled\<close> equal to the callbacks applied to the
  editor, and every such dropdown with \<open>onActive\<close> has \<open>value\<close> equal to \<open>onActive\<close>
  applied to the editor.
\<close>

theorem selectionChange_item_state:
  assumes "onSelectionChange (editor w) = Wrapper h itemsProp"
    and "call_handler ext h w = Inr w1"
    and "onToolbar (editor w1) = Some f"
    and "\<forall>cb\<in>set (eventListeners w1). \<forall>w'.
           \<exists>added. eventListeners (callback ext cb w') = eventListeners w' @ added"
    and "\<forall>cb\<in>set (eventListeners w1). \<forall>w'. editor (callback ext cb w') = editor w'"
  shows "\<exists>w'. selectionChange ext w = Inr w' \<and> editor w' = editor w1 \<and>
     (\<forall>r i fa fd. registered_item (eventListeners w1) (ButtonOnChange r i (Some fa) (Some fd)) \<longrightarrow>
        active w' i = fa (data (editor w')) \<and> disabled w' i = fd (data (editor w'))) \<and>
     (\<forall>r i fa od. registered_item (eventListeners w1) (DropdownOnChange r i (Some fa) od) \<longrightarrow>
        value' w' i = Some (fa (data (editor w'))))"
proof -
  let ?ls = "eventListeners w1"
  let ?w' = "setItems (f (case itemsProp of Some xs \<Rightarrow> xs | None \<Rightarrow> [])) (call_each ext ?ls w1)"
  have disp: "dispatch ext w1 = call_each ext ?ls w1"
    by (rule dispatch_append_only[OF assms(4)])
  have ed: "editor (call_each ext ?ls w1) = editor w1"
    by (rule call_each_editor[OF assms(5)])
  have run: "selectionChange ext w = Inr ?w'"
    using assms(1-3) disp ed by (simp add: selectionChange_def Let_def)
  have ed': "editor ?w' = editor w1"
    using ed by (simp add: setItems_def)
  have pre_ed: "editor (call_each ext pre w1) = editor w1" if "?ls = pre @ c # post" for pre c post
    using assms(5) that by (intro call_each_editor) simp
  have button: "active ?w' i = fa (data (editor ?w')) \<and> disabled ?w' i = fd (data (editor ?w'))"
    if "registered_item ?ls (ButtonOnChange r i (Some fa) (Some fd))" for r i fa fd
    using call_each_button_state[OF that, of ext w1] pre_ed ed'
    by (auto simp: setItems_def)
  have dropdown: "value' ?w' i = Some (fa (data (editor ?w')))"
    if "registered_item ?ls (DropdownOnChange r i (Some fa) od)" for r i fa od
    using call_each_dropdown_state[OF that, of ext w1] pre_ed ed'
    by (auto simp: setItems_def)
  from run ed' button dropdown show ?thesis by blast
qed

theorem selectionChange_item_state_witness:
  "\<not> active adding_world 0 \<and> value' adding_world 1 = Some ''p'' \<and>
   (\<exists>w'. selectionChange adding adding_world = Inr w' \<and>
     data (editor w') = 1 \<and>
     active w' 0 \<and> \<not> disabled w' 0 \<and> value' w' 1 = Some ''h1'')"
proof -
  let ?w1 = "adding_world\<lparr>editor := (editor adding_world)\<lparr>data := 1\<rparr>\<rparr>"
  have before: "\<not> active adding_world 0 \<and> value' adding_world 1 = Some ''p''"
    by (simp add: adding_world_eq)
  have handler: "onSelectionChange (editor adding_world) = Wrapper (External 0) (Some example_items)"
    and f: "onToolbar (editor ?w1) = Some (\<lambda>items'. items')"
    by (simp_all add: adding_world_eq)
  have h1: "\<forall>cb\<in>set (eventListeners ?w1). \<forall>w'.
           \<exists>added. eventListeners (callback adding cb w') = eventListeners w' @ added"
    by (simp add: adding_append_only)
  have h2: "\<forall>cb\<in>set (eventListeners ?w1). \<forall>w'. editor (callback adding cb w') = editor w'"
    by (simp add: adding_keeps_editor)
  from selectionChange_item_state[OF handler call_handler_adding_world f h1 h2]
  obtain w' where w': "selectionChange adding adding_world = Inr w'"
    and ed: "editor w' = editor ?w1"
    and button: "\<forall>r i fa fd. registered_item (eventListeners ?w1) (ButtonOnChange r i (Some fa) (Some fd)) \<longrightarrow>
        active w' i = fa (data (editor w')) \<and> disabled w' i = fd (data (editor w'))"
    and dropdown: "\<forall>r i fa od. registered_item (eventListeners ?w1) (DropdownOnChange r i (Some fa) od) \<longrightarrow>
        value' w' i = Some (fa (data (editor w')))"
    by blast
  have d: "data (editor w') = 1" using ed by simp
  have "registered_item (eventListeners ?w1) (ButtonOnChange 1 0 (Some (\<lambda>d. d = 1)) (Some (\<lambda>d. 5 < d)))"
    by (simp add: registered_item_def adding_world_eq)
  with button have b: "active w' 0 = (data (editor w') = 1) \<and> disabled w' 0 = (5 < data (editor w'))"
    by blast
  have "registered_item (eventListeners ?w1)
      (DropdownOnChange 2 1 (Some (\<lambda>d. if d = 1 then ''h1'' else ''p'')) None)"
    by (simp add: registered_item_def adding_world_eq)
  with dropdown have v: "value' w' 1 = Some (if data (editor w') = 1 then ''h1'' else ''p'')"
    by blast
  from before w' d b v show ?thesis by simp
qed

text \<open>
  C2 as stated fails in three ways. An item that the notification itself makes the
  toolbar render registers its listener after the dispatch, with the initial state: after
  the first selection change on a toolbar, the button is registered and inactive although
  its \<open>onActive\<close> is true of the editor. A one-shot listener registered before the
  listener of a button makes \<open>forEach\<close> skip the button. And a listener from outside that
  moves the selection after the listener of the button has run leaves the button active
  although its \<open>onActive\<close> is false of the editor as the notification leaves it.
\<close>

theorem selectionChange_item_state_counterexample:
  "(case first_notification of
      Inl err \<Rightarrow> False
    | Inr w1 \<Rightarrow>
        eventListeners w1 = [] \<and> itemsState w1 = example_items \<and>
        (case ToolbarButtonDefault_effect 1 0 bold_button w1 of
           (w2, off) \<Rightarrow>
             registered_item (eventListeners w2) (ButtonOnChange 1 0 (onActive bold_button) (onDisabled bold_button)) \<and>
             (case onActive bold_button of None \<Rightarrow> False | Some fa \<Rightarrow> active w2 0 \<noteq> fa (data (editor w2))))) \<and>
   registered_item (eventListeners one_shot_world)
     (ButtonOnChange 1 0 (onActive bold_button) (onDisabled bold_button)) \<and>
   (case selectionChange one_shot one_shot_world of
      Inl err \<Rightarrow> False
    | Inr w' \<Rightarrow>
        registered_item (eventListeners w')
          (ButtonOnChange 1 0 (onActive bold_button) (onDisabled bold_button)) \<and>
        (case onActive bold_button of None \<Rightarrow> False | Some fa \<Rightarrow> active w' 0 \<noteq> fa (data (editor w')))) \<and>
   registered_item (eventListeners mover_world)
     (ButtonOnChange 1 0 (onActive bold_button) (onDisabled bold_button)) \<and>
   (case selectionChange moving mover_world of
      Inl err \<Rightarrow> False
    | Inr w' \<Rightarrow>
        registered_item (eventListeners w')
          (ButtonOnChange 1 0 (onActive bold_button) (onDisabled bold_button)) \<and>
        (case onActive bold_button of None \<Rightarrow> False | Some fa \<Rightarrow> active w' 0 \<noteq> fa (data (editor w'))))"
proof -
  have a: "case first_notification of
      Inl err \<Rightarrow> False
    | Inr w1 \<Rightarrow>
        eventListeners w1 = [] \<and> itemsState w1 = example_items \<and>
        (case ToolbarButtonDefault_effect 1 0 bold_button w1 of
           (w2, off) \<Rightarrow>
             registered_item (eventListeners w2) (ButtonOnChange 1 0 (onActive bold_button) (onDisabled bold_button)) \<and>
             (case onActive bold_button of None \<Rightarrow> False | Some fa \<Rightarrow> active w2 0 \<noteq> fa (data (editor w2))))"
    by (simp add: first_notification_def eval_defs moving_def registered_item_def)
  have b: "registered_item (eventListeners one_shot_world)
     (ButtonOnChange 1 0 (onActive bold_button) (onDisabled bold_button)) \<and>
   (case selectionChange one_shot one_shot_world of
      Inl err \<Rightarrow> False
    | Inr w' \<Rightarrow>
        registered_item (eventListeners w')
          (ButtonOnChange 1 0 (onActive bold_button) (onDisabled bold_button)) \<and>
        (case onActive bold_button of None \<Rightarrow> False | Some fa \<Rightarrow> active w' 0 \<noteq> fa (data (editor w'))))"
    by (simp add: one_shot_world_def eval_defs one_shot_def splice_js_def registered_item_def)
  have c: "registered_item (eventListeners mover_world)
     (ButtonOnChange 1 0 (onActive bold_button) (onDisabled bold_button)) \<and>
   (case selectionChange moving mover_world of
      Inl err \<Rightarrow> False
    | Inr w' \<Rightarrow>
        registered_item (eventListeners w')
          (ButtonOnChange 1 0 (onActive bold_button) (onDisabled bold_button)) \<and>
        (case onActive bold_button of None \<Rightarrow> False | Some fa \<Rightarrow> active w' 0 \<noteq> fa (data (editor w'))))"
    by (simp add: mover_world_def eval_defs moving_def registered_item_def)
  from a b c show ?thesis by simp
qed

text \<open>
  C4 (as amended). On a mounted toolbar, take a selection-change notification that
  returns and during whose dispatch no listener removes a listener from the array. After
  it, an item whose listener was registered when the dispatch started is in the safe
  state for each callback it lacks: a button with no \<open>onActive\<close> is not active and one
  with no \<open>onDisabled\<close> is not disabled, a dropdown with no \<open>onActive\<close> has the value
  \<open>undefined\<close> and one with no \<open>onDisabled\<close> is not disabled. \<open>handleToogle\<close> of an item
  with no \<open>onToggle\<close> leaves the editor as it is.
\<close>

theorem selectionChange_absent_callbacks:
  assumes "onSelectionChange (editor w) = Wrapper h itemsProp"
    and "call_handler ext h w = Inr w1"
    and "onToolbar (editor (dispatch ext w1)) = Some f"
    and "\<forall>cb\<in>set (eventListeners w1). \<forall>w'.
           \<exists>added. eventListeners (callback ext cb w') = eventListeners w' @ added"
  shows "(\<exists>w'. selectionChange ext w = Inr w' \<and>
     (\<forall>r i od. registered_item (eventListeners w1) (ButtonOnChange r i None od) \<longrightarrow> \<not> active w' i) \<and>
     (\<forall>r i oa. registered_item (eventListeners w1) (ButtonOnChange r i oa None) \<longrightarrow> \<not> disabled w' i) \<and>
     (\<forall>r i od. registered_item (eventListeners w1) (DropdownOnChange r i None od) \<longrightarrow> value' w' i = None) \<and>
     (\<forall>r i oa. registered_item (eventListeners w1) (DropdownOnChange r i oa None) \<longrightarrow> \<not> disabled w' i)) \<and>
     (onToggle button = None \<longrightarrow> handleToogle button e = e) \<and>
     (onToggle dropdown = None \<longrightarrow> handleToogle_dropdown dropdown v e = e)"
proof -
  let ?ls = "eventListeners w1"
  let ?w' = "setItems (f (case itemsProp of Some xs \<Rightarrow> xs | None \<Rightarrow> [])) (call_each ext ?ls w1)"
  have disp: "dispatch ext w1 = call_each ext ?ls w1"
    by (rule dispatch_append_only[OF assms(4)])
  have run: "selectionChange ext w = Inr ?w'"
    using assms(1-3) disp by (simp add: selectionChange_def Let_def)
  have b1: "\<not> active ?w' i" if "registered_item ?ls (ButtonOnChange r i None od)" for r i od
    using call_each_button_state[OF that, of ext w1] by (auto simp: setItems_def)
  have b2: "\<not> disabled ?w' i" if "registered_item ?ls (ButtonOnChange r i oa None)" for r i oa
    using call_each_button_state[OF that, of ext w1] by (auto simp: setItems_def)
  have d1: "value' ?w' i = None" if "registered_item ?ls (DropdownOnChange r i None od)" for r i od
    using call_each_dropdown_state[OF that, of ext w1] by (auto simp: setItems_def)
  have d2: "\<not> disabled ?w' i" if "registered_item ?ls (DropdownOnChange r i oa None)" for r i oa
    using call_each_dropdown_state[OF that, of ext w1] by (auto simp: setItems_def)
  have t1: "onToggle button = None \<longrightarrow> handleToogle button e = e"
    by (simp add: handleToogle_def)
  have t2: "onToggle dropdown = None \<longrightarrow> handleToogle_dropdown dropdown v e = e"
    by (simp add: handleToogle_dropdown_def)
  from run b1 b2 d1 d2 have "\<exists>w'. selectionChange ext w = Inr w' \<and>
     (\<forall>r i od. registered_item (eventListeners w1) (ButtonOnChange r i None od) \<longrightarrow> \<not> active w' i) \<and>
     (\<forall>r i oa. registered_item (eventListeners w1) (ButtonOnChange r i oa None) \<longrightarrow> \<not> disabled w' i) \<and>
     (\<forall>r i od. registered_item (eventListeners w1) (DropdownOnChange r i None od) \<longrightarrow> value' w' i = None) \<and>
     (\<forall>r i oa. registered_item (eventListeners w1) (DropdownOnChange r i oa None) \<longrightarrow> \<not> disabled w' i)"
    by blast
  with t1 t2 show ?thesis by blast
qed

theorem selectionChange_absent_callbacks_witness:
  "(\<exists>w'. selectionChange adding
            (adding_world\<lparr>active := (\<lambda>i. True), disabled := (\<lambda>i. True), value' := (\<lambda>i. Some ''old'')\<rparr>)
          = Inr w' \<and>
      \<not> active w' 2 \<and> \<not> disabled w' 2 \<and> value' w' 3 = None \<and> \<not> disabled w' 3 \<and> \<not> disabled w' 1) \<and>
   handleToogle plain_button example_editor = example_editor \<and>
   handleToogle_dropdown plain_dropdown ''h2'' example_editor = example_editor"
proof -
  let ?w = "adding_world\<lparr>active := (\<lambda>i. True), disabled := (\<lambda>i. True), value' := (\<lambda>i. Some ''old'')\<rparr>"
  let ?w1 = "?w\<lparr>editor := (editor ?w)\<lparr>data := 1\<rparr>\<rparr>"
  have handler: "onSelectionChange (editor ?w) = Wrapper (External 0) (Some example_items)"
    by (simp add: adding_world_eq)
  have prev: "call_handler adding (External 0) ?w = Inr ?w1"
    by (simp add: adding_world_eq call_outside_def adding_def)
  have h1: "\<forall>cb\<in>set (eventListeners ?w1). \<forall>w'.
           \<exists>added. eventListeners (callback adding cb w') = eventListeners w' @ added"
    by (simp add: adding_append_only)
  have "editor (call_each adding (eventListeners ?w1) ?w1) = editor ?w1"
    by (intro call_each_editor) (simp add: adding_keeps_editor)
  then have f: "onToolbar (editor (dispatch adding ?w1)) = Some (\<lambda>items'. items')"
    unfolding dispatch_append_only[OF h1] by (simp add: adding_world_eq)
  note inst = selectionChange_absent_callbacks[OF handler prev f h1,
      of plain_button example_editor plain_dropdown "''h2''"]
  from inst obtain w' where w': "selectionChange adding ?w = Inr w'"
    and b1: "\<forall>r i od. registered_item (eventListeners ?w1) (ButtonOnChange r i None od) \<longrightarrow> \<not> active w' i"
    and b2: "\<forall>r i oa. registered_item (eventListeners ?w1) (ButtonOnChange r i oa None) \<longrightarrow> \<not> disabled w' i"
    and d1: "\<forall>r i od. registered_item (eventListeners ?w1) (DropdownOnChange r i None od) \<longrightarrow> value' w' i = None"
    and d2: "\<forall>r i oa. registered_item (eventListeners ?w1) (DropdownOnChange r i oa None) \<longrightarrow> \<not> disabled w' i"
    by blast
  have "registered_item (eventListeners ?w1) (ButtonOnChange 3 2 None None)"
    "registered_item (eventListeners ?w1) (DropdownOnChange 4 3 None None)"
    "registered_item (eventListeners ?w1) (DropdownOnChange 2 1 (Some (\<lambda>d. if d = 1 then ''h1'' else ''p'')) None)"
    by (simp_all add: registered_item_def adding_world_eq)
  with b1 b2 d1 d2 have st: "\<not> active w' 2 \<and> \<not> disabled w' 2 \<and> value' w' 3 = None \<and> \<not> disabled w' 3 \<and> \<not> disabled w' 1"
    by blast
  from inst have t: "handleToogle plain_button example_editor = example_editor \<and>
     handleToogle_dropdown plain_dropdown ''h2'' example_editor = example_editor"
    by (simp add: plain_button_def plain_dropdown_def)
  from w' st t show ?thesis by blast
qed

text \<open>
  C4 as stated fails when the listener of the item is skipped: with a one-shot listener
  registered before the listener of a button that has no callbacks, the button is still
  active and disabled after the notification, as an earlier render left it.
\<close>

theorem stale_state_survives_counterexample:
  "registered_item (eventListeners stale_one_shot_world) (ButtonOnChange 3 2 (onActive plain_button) (onDisabled plain_button)) \<and>
   onActive plain_button = None \<and> onDisabled plain_button = None \<and>
   (case selectionChange one_shot stale_one_shot_world of
      Inl err \<Rightarrow> False
    | Inr w' \<Rightarrow>
        registered_item (eventListeners w') (ButtonOnChange 3 2 (onActive plain_button) (onDisabled plain_button)) \<and>
        active w' 2 \<and> disabled w' 2)"
  by (simp add: stale_one_shot_world_def eval_defs one_shot_def splice_js_def registered_item_def)

end
